theory Spec2Isabelle
  imports Main "HOL-Library.Word"
begin

section \<open>SKAdNetwork signing and postback verification (mechiru/skadnetwork)\<close>

text \<open>
  The file \<^verbatim>\<open>skadnetwork.go\<close> holds two listings of the package. The first
  (lines 1-338) builds the postback items with one function per version
  (\<^verbatim>\<open>toItems2_1\<close>, \<^verbatim>\<open>toItems2_2\<close>, \<^verbatim>\<open>toItems3_0\<close>) and loads a key pair from two PEM blocks.
  The second (lines 338-603) has one \<^verbatim>\<open>Params\<close> struct and one \<^verbatim>\<open>Postback.toItems\<close>, and
  loads the key from a single PEM block. Definitions of the second listing carry the
  source's names; where the first listing has a function of the same name with a
  different body, its model carries the suffix \<open>_1\<close>.

  Go values are modelled as follows. \<^verbatim>\<open>int\<close> and \<^verbatim>\<open>int64\<close> are \<open>64 word\<close>, read as
  signed by \<open>sint\<close> (\<^verbatim>\<open>int\<close> is 64 bits wide on the 64-bit targets); a \<^verbatim>\<open>string\<close> is its
  sequence of bytes, a \<open>char list\<close>; \<^verbatim>\<open>[]byte\<close> is \<open>8 word list\<close>; a nilable pointer field
  is an \<open>option\<close>; a run-time panic is the \<open>Inl\<close> branch of a sum; a result pair
  \<^verbatim>\<open>(T, error)\<close> is a pair whose second component is \<open>error option\<close>.
\<close>

subsection \<open>Package strconv: decimal and boolean rendering\<close>

text \<open>
  \<^verbatim>\<open>strconv.FormatInt(i, 10)\<close> writes the magnitude of \<open>i\<close> with the digit table
  \<^verbatim>\<open>"0123456789..."\<close>, most significant digit first, after a minus sign when \<open>i < 0\<close>.
  \<^verbatim>\<open>strconv.Itoa(i)\<close> is \<^verbatim>\<open>FormatInt(int64(i), 10)\<close>.
\<close>

definition digits :: string where
  "digits = ''0123456789abcdefghijklmnopqrstuvwxyz''"

fun formatBits :: "nat \<Rightarrow> string" where
  "formatBits u =
     (if u < 10 then [digits ! u]
      else formatBits (u div 10) @ [digits ! (u mod 10)])"

declare formatBits.simps [simp del]

definition FormatInt :: "64 word \<Rightarrow> string" where
  "FormatInt i =
     (if sint i < 0 then CHR ''-'' # formatBits (nat (- sint i))
      else formatBits (nat (sint i)))"

definition Itoa :: "64 word \<Rightarrow> string" where
  "Itoa i = FormatInt i"

definition FormatBool :: "bool \<Rightarrow> string" where
  "FormatBool b = (if b then ''true'' else ''false'')"

subsection \<open>Package strings: Join\<close>

fun Join :: "string list \<Rightarrow> string \<Rightarrow> string" where
  "Join [] sep = []"
| "Join [x] sep = x"
| "Join (x # y # ys) sep = x @ sep @ Join (y # ys) sep"

text \<open>The separator is the code point U+2063, three bytes in UTF-8: E2 81 A3.\<close>

definition separator :: string where
  "separator = [char_of (226 :: nat), char_of (129 :: nat), char_of (163 :: nat)]"

subsection \<open>Package uuid: the string form of a UUID\<close>

text \<open>
  \<^verbatim>\<open>uuid.UUID\<close> is \<^verbatim>\<open>[16]byte\<close>. The model keeps the sixteen bytes as one 128-bit word,
  byte 0 the most significant, so that every value of the type has exactly sixteen
  bytes. \<^verbatim>\<open>String()\<close> writes the bytes in lower-case hexadecimal in the groups
  4-2-2-2-6, with hyphens between the groups.
\<close>

type_synonym UUID = "128 word"

definition hextable :: string where
  "hextable = ''0123456789abcdef''"

definition uuid_byte :: "UUID \<Rightarrow> nat \<Rightarrow> nat" where
  "uuid_byte u i = (unat u div 256 ^ (15 - i)) mod 256"

definition uuid_bytes :: "UUID \<Rightarrow> nat list" where
  "uuid_bytes u = map (uuid_byte u) [0..<16]"

fun hex_Encode :: "nat list \<Rightarrow> string" where
  "hex_Encode [] = []"
| "hex_Encode (v # vs) = hextable ! (v div 16) # hextable ! (v mod 16) # hex_Encode vs"

definition UUID_String :: "UUID \<Rightarrow> string" where
  "UUID_String u =
     (let b = uuid_bytes u in
      hex_Encode (take 4 b) @ ''-'' @
      hex_Encode (take 2 (drop 4 b)) @ ''-'' @
      hex_Encode (take 2 (drop 6 b)) @ ''-'' @
      hex_Encode (take 2 (drop 8 b)) @ ''-'' @
      hex_Encode (drop 10 b))"

subsection \<open>Package time: Unix milliseconds\<close>

text \<open>
  A \<^verbatim>\<open>time.Time\<close> is kept as the instant it denotes: whole seconds since the Unix epoch
  (an \<^verbatim>\<open>int64\<close>) and the nanoseconds within the second (an \<^verbatim>\<open>int32\<close> in
  \<open>[0, 999999999]\<close>). \<^verbatim>\<open>UnixMilli\<close> is \<^verbatim>\<open>t.unixSec()*1e3 + int64(t.nsec())/1e6\<close> in
  64-bit arithmetic, which wraps.
\<close>

record Time =
  unixSec :: "64 word"
  nsec :: "32 word"

definition UnixMilli :: "Time \<Rightarrow> 64 word" where
  "UnixMilli t = unixSec t * 1000 + ucast (nsec t) div 1000000"

text \<open>
  \<^verbatim>\<open>time.Date\<close> for a civil date and time in UTC whose fields are already in range
  (Go normalises fields out of range, which the model leaves out: \<open>None\<close>). This is how
  an RFC 3339 timestamp ending in \<^verbatim>\<open>Z\<close> becomes a \<^verbatim>\<open>Time\<close>.
\<close>

definition isLeap :: "int \<Rightarrow> bool" where
  "isLeap year = (year mod 4 = 0 \<and> (year mod 100 \<noteq> 0 \<or> year mod 400 = 0))"

definition daysBefore :: "int list" where
  "daysBefore = [0, 31, 59, 90, 120, 151, 181, 212, 243, 273, 304, 334, 365]"

definition daysIn :: "nat \<Rightarrow> int \<Rightarrow> int" where
  "daysIn month year =
     (if month = 2 \<and> isLeap year then 29
      else daysBefore ! month - daysBefore ! (month - 1))"

definition daysSinceEpoch :: "int \<Rightarrow> int" where
  "daysSinceEpoch year =
     365 * (year - 1970)
     + ((year - 1) div 4 - (year - 1) div 100 + (year - 1) div 400)
     - (1969 div 4 - 1969 div 100 + 1969 div 400)"

definition Date :: "int \<Rightarrow> nat \<Rightarrow> int \<Rightarrow> int \<Rightarrow> int \<Rightarrow> int \<Rightarrow> int \<Rightarrow> Time option" where
  "Date year month day hour minute second nanosecond =
     (if 1 \<le> month \<and> month \<le> 12 \<and> 1 \<le> day \<and> day \<le> daysIn month year
         \<and> 0 \<le> hour \<and> hour < 24 \<and> 0 \<le> minute \<and> minute < 60
         \<and> 0 \<le> second \<and> second < 60 \<and> 0 \<le> nanosecond \<and> nanosecond < 1000000000
      then
        let d = daysSinceEpoch year + daysBefore ! (month - 1)
                + (if isLeap year \<and> 3 \<le> month then 1 else 0) + (day - 1)
        in Some \<lparr>unixSec = word_of_int (d * 86400 + hour * 3600 + minute * 60 + second),
                 nsec = word_of_int nanosecond\<rparr>
      else None)"

subsection \<open>Fidelity type\<close>

text \<open>\<^verbatim>\<open>type FidelityType int\<close>, with the two named constants of the source.\<close>

type_synonym FidelityType = "64 word"

definition SKRenderedAds :: FidelityType where
  "SKRenderedAds = 1"

definition ViewThroughAds :: FidelityType where
  "ViewThroughAds = 0"

definition FidelityType_String :: "FidelityType \<Rightarrow> string" where
  "FidelityType_String f = FormatInt f"

subsection \<open>Signing parameters (second listing, lines 387-433)\<close>

record Params =
  Version :: string
  AdNetworkID :: string
  CampaignID :: "64 word"
  ItunesItemID :: "64 word"
  Nonce :: UUID
  SourceAppStoreID :: "64 word"
  FidelityType :: FidelityType
  Timestamp :: Time

definition Params_toItems :: "Params \<Rightarrow> string list" where
  "Params_toItems p =
     (let items = [Params.Version p,
                   Params.AdNetworkID p,
                   Itoa (Params.CampaignID p),
                   FormatInt (ItunesItemID p),
                   UUID_String (Nonce p),
                   FormatInt (SourceAppStoreID p)];
          items = (if Params.Version p = ''2.2'' \<or> Params.Version p = ''3.0''
                   then items @ [FidelityType_String (Params.FidelityType p)]
                   else items)
      in items @ [FormatInt (UnixMilli (Timestamp p))])"

subsection \<open>Postback records\<close>

datatype panic = NilPointerDereference | InterfaceConversion

record Postback =
  Version :: string
  AdNetworkID :: string
  TransactionID :: string
  CampaignID :: "64 word"
  AppID :: "64 word"
  AttributionSignature :: string
  Redownload :: "bool option"
  SourceAppID :: "64 word option"
  FidelityType :: "FidelityType option"
  ConversionValue :: "8 word option"
  DidWin :: "bool option"

text \<open>
  Reading through a pointer: \<^verbatim>\<open>*p.Redownload\<close>, \<^verbatim>\<open>*p.DidWin\<close> and the call
  \<^verbatim>\<open>p.FidelityType.String()\<close> of a value-receiver method through a pointer all panic
  with a nil pointer dereference when the pointer is nil.
\<close>

definition deref :: "'a option \<Rightarrow> panic + 'a" where
  "deref x = (case x of None \<Rightarrow> Inl NilPointerDereference | Some v \<Rightarrow> Inr v)"

definition bind_panic :: "panic + 'a \<Rightarrow> ('a \<Rightarrow> panic + 'b) \<Rightarrow> panic + 'b" where
  "bind_panic m f = (case m of Inl e \<Rightarrow> Inl e | Inr v \<Rightarrow> f v)"

text \<open>Second listing, lines 489-509.\<close>

definition Postback_toItems :: "Postback \<Rightarrow> panic + string list" where
  "Postback_toItems p =
     bind_panic (deref (Redownload p)) (\<lambda>redownload.
       let ret = [Version p,
                  AdNetworkID p,
                  Itoa (CampaignID p),
                  FormatInt (AppID p),
                  TransactionID p,
                  FormatBool redownload];
           ret = (case SourceAppID p of
                    None \<Rightarrow> ret
                  | Some a \<Rightarrow> ret @ [FormatInt a])
       in if Version p = ''2.2'' then
            bind_panic (deref (FidelityType p)) (\<lambda>f.
              Inr (ret @ [FidelityType_String f]))
          else if Version p = ''3.0'' then
            bind_panic (deref (FidelityType p)) (\<lambda>f.
              bind_panic (deref (DidWin p)) (\<lambda>w.
                Inr (ret @ [FidelityType_String f, FormatBool w])))
          else Inr ret)"

text \<open>First listing, lines 164-214: one function per version, the version tag a literal.\<close>

definition Postback_toItems2_1 :: "Postback \<Rightarrow> panic + string list" where
  "Postback_toItems2_1 p =
     bind_panic (deref (Redownload p)) (\<lambda>redownload.
       let ret = [''2.1'',
                  AdNetworkID p,
                  Itoa (CampaignID p),
                  FormatInt (AppID p),
                  TransactionID p,
                  FormatBool redownload]
       in Inr (case SourceAppID p of
                 None \<Rightarrow> ret
               | Some a \<Rightarrow> ret @ [FormatInt a]))"

definition Postback_toItems2_2 :: "Postback \<Rightarrow> panic + string list" where
  "Postback_toItems2_2 p =
     bind_panic (deref (Redownload p)) (\<lambda>redownload.
       let ret = [''2.2'',
                  AdNetworkID p,
                  Itoa (CampaignID p),
                  FormatInt (AppID p),
                  TransactionID p,
                  FormatBool redownload];
           ret = (case SourceAppID p of
                    None \<Rightarrow> ret
                  | Some a \<Rightarrow> ret @ [FormatInt a])
       in bind_panic (deref (FidelityType p)) (\<lambda>f.
            Inr (ret @ [FidelityType_String f])))"

definition Postback_toItems3_0 :: "Postback \<Rightarrow> panic + string list" where
  "Postback_toItems3_0 p =
     bind_panic (deref (Redownload p)) (\<lambda>redownload.
       let ret = [''3.0'',
                  AdNetworkID p,
                  Itoa (CampaignID p),
                  FormatInt (AppID p),
                  TransactionID p,
                  FormatBool redownload];
           ret = (case SourceAppID p of
                    None \<Rightarrow> ret
                  | Some a \<Rightarrow> ret @ [FormatInt a])
       in bind_panic (deref (FidelityType p)) (\<lambda>f.
            bind_panic (deref (DidWin p)) (\<lambda>w.
              Inr (ret @ [FidelityType_String f, FormatBool w]))))"

subsection \<open>Package encoding/base64: the standard encoding\<close>

text \<open>
  \<^verbatim>\<open>base64.StdEncoding\<close>: the alphabet \<^verbatim>\<open>A-Z a-z 0-9 + /\<close>, padding character \<^verbatim>\<open>=\<close>, not
  strict. The encoder turns each group of three bytes into four characters; a last
  group of one or two bytes is padded. The shifts and ORs of the source act on disjoint
  bit fields of a 24-bit value and are written here as multiplication, addition,
  \<open>div\<close> and \<open>mod\<close> on \<open>nat\<close>.

  The decoder skips every \<^verbatim>\<open>\r\<close> and \<^verbatim>\<open>\n\<close>, wherever it stands. What is left must be
  groups of four alphabet characters, the last group possibly ending in one or two
  padding characters, after which nothing may follow. Every violation makes
  \<^verbatim>\<open>DecodeString\<close> return a \<^verbatim>\<open>CorruptInputError\<close>; the package only tests that error
  against nil, so the model returns \<open>None\<close> for it.
\<close>

type_synonym bytes = "8 word list"

definition encodeStd :: string where
  "encodeStd = ''ABCDEFGHIJKLMNOPQRSTUVWXYZabcdefghijklmnopqrstuvwxyz0123456789+/''"

fun index_of :: "char \<Rightarrow> string \<Rightarrow> nat option" where
  "index_of c [] = None"
| "index_of c (x # xs) = (if c = x then Some 0 else map_option Suc (index_of c xs))"

definition decodeMap :: "char \<Rightarrow> nat option" where
  "decodeMap c = index_of c encodeStd"

definition enc :: "nat \<Rightarrow> char" where
  "enc i = encodeStd ! (i mod 64)"

fun Encode :: "bytes \<Rightarrow> string" where
  "Encode [] = []"
| "Encode [a] =
     (let val = unat a * 65536
      in [enc (val div 262144), enc (val div 4096), CHR ''='', CHR ''=''])"
| "Encode [a, b] =
     (let val = unat a * 65536 + unat b * 256
      in [enc (val div 262144), enc (val div 4096), enc (val div 64), CHR ''=''])"
| "Encode (a # b # c # rest) =
     (let val = unat a * 65536 + unat b * 256 + unat c
      in enc (val div 262144) # enc (val div 4096) # enc (val div 64) # enc val
         # Encode rest)"

definition EncodeToString :: "bytes \<Rightarrow> string" where
  "EncodeToString src = Encode src"

definition quantum :: "nat \<Rightarrow> nat \<Rightarrow> nat \<Rightarrow> nat \<Rightarrow> bytes" where
  "quantum i0 i1 i2 i3 =
     (let val = i0 * 262144 + i1 * 4096 + i2 * 64 + i3
      in [of_nat (val div 65536), of_nat (val div 256), of_nat val])"

fun Decode :: "string \<Rightarrow> bytes option" where
  "Decode (a # b # c # d # rest) =
     (case (decodeMap a, decodeMap b) of
        (Some i0, Some i1) \<Rightarrow>
          (if c = CHR ''='' then
             (if d = CHR ''='' \<and> rest = [] then Some (take 1 (quantum i0 i1 0 0))
              else None)
           else
             (case decodeMap c of
                None \<Rightarrow> None
              | Some i2 \<Rightarrow>
                  (if d = CHR ''='' then
                     (if rest = [] then Some (take 2 (quantum i0 i1 i2 0)) else None)
                   else
                     (case decodeMap d of
                        None \<Rightarrow> None
                      | Some i3 \<Rightarrow>
                          map_option (\<lambda>out. quantum i0 i1 i2 i3 @ out) (Decode rest)))))
      | _ \<Rightarrow> None)"
| "Decode [] = Some []"
| "Decode _ = None"

definition DecodeString :: "string \<Rightarrow> bytes option" where
  "DecodeString s =
     Decode (filter (\<lambda>c. c \<noteq> CHR 0x0A \<and> c \<noteq> CHR 0x0D) s)"

subsection \<open>Keys, PEM blocks and the library functions the package calls\<close>

text \<open>
  \<^verbatim>\<open>ecdsa.PrivateKey\<close> embeds its \<^verbatim>\<open>PublicKey\<close> next to the secret scalar \<^verbatim>\<open>D\<close>.
  \<^verbatim>\<open>x509.ParsePKIXPublicKey\<close> returns a public key of any algorithm.
\<close>

record ecdsa_PublicKey =
  Curve :: string
  X :: int
  Y :: int

record ecdsa_PrivateKey =
  PublicKey :: ecdsa_PublicKey
  D :: int

datatype x509_PublicKey = ECDSA_Key ecdsa_PublicKey | Other_Key string

record pem_Block =
  Type :: string
  Bytes :: bytes

text \<open>
  SHA-256, ECDSA, the X.509 parsers and the PEM decoder belong to the Go standard
  library. They are parameters of the model, gathered in one record, and so is the
  package variable \<^verbatim>\<open>pubV3\<close>, which package initialisation sets to the parsed P-256 key of
  the postback authority. A library call that returns \<^verbatim>\<open>(value, error)\<close> is a sum, \<open>Inl\<close>
  the error's text. \<^verbatim>\<open>SignASN1\<close> takes the bytes it draws from \<^verbatim>\<open>rand.Reader\<close> as an argument.
\<close>

record library =
  Sum256 :: "string \<Rightarrow> bytes"
  SignASN1 :: "bytes \<Rightarrow> ecdsa_PrivateKey \<Rightarrow> bytes \<Rightarrow> string + bytes"
  VerifyASN1 :: "ecdsa_PublicKey \<Rightarrow> bytes \<Rightarrow> bytes \<Rightarrow> bool"
  ParseECPrivateKey :: "bytes \<Rightarrow> string + ecdsa_PrivateKey"
  ParsePKIXPublicKey :: "bytes \<Rightarrow> string + x509_PublicKey"
  pem_Decode :: "string \<Rightarrow> pem_Block option \<times> string"
  pubV3 :: ecdsa_PublicKey

subsection \<open>Errors of the package\<close>

text \<open>
  The package builds its errors with \<^verbatim>\<open>errors.New\<close> and \<^verbatim>\<open>fmt.Errorf\<close>; one constructor
  stands for each message, with the formatted or wrapped value as its argument.
\<close>

datatype error =
    LibraryError string
  | UnsupportedVersionError string
  | SignatureDecodeError string
  | SignMessageError error
  | PemDataDecodeError error
  | DataBlockNotFound
  | Only2BlocksAllowed
  | UnexpectedBlockType string
  | BlockParseError error
  | ParsePublicKeyError error
  | KeysNotIncluded

subsection \<open>Hashing and verification (lines 286-300 and 568-582, the same in both listings)\<close>

definition hash :: "library \<Rightarrow> string \<Rightarrow> bytes" where
  "hash L msg = Sum256 L msg"

definition verify :: "library \<Rightarrow> ecdsa_PublicKey \<Rightarrow> string list \<Rightarrow> string \<Rightarrow> bool \<times> error option" where
  "verify L key items sig =
     (case DecodeString sig of
        None \<Rightarrow> (False, Some (SignatureDecodeError sig))
      | Some der \<Rightarrow>
          (let msg = Join items separator;
               h = hash L msg
           in (VerifyASN1 L key h der, None)))"

subsection \<open>Postback verification\<close>

text \<open>Second listing, lines 511-518 and 551-553.\<close>

definition Postback_verify :: "library \<Rightarrow> Postback \<Rightarrow> panic + (bool \<times> error option)" where
  "Postback_verify L p =
     (if Version p = ''2.1'' \<or> Version p = ''2.2'' \<or> Version p = ''3.0'' then
        bind_panic (Postback_toItems p) (\<lambda>items.
          Inr (verify L (pubV3 L) items (AttributionSignature p)))
      else Inr (False, Some (UnsupportedVersionError (Version p))))"

definition Verify :: "library \<Rightarrow> Postback \<Rightarrow> panic + (bool \<times> error option)" where
  "Verify L p = Postback_verify L p"

text \<open>First listing, lines 216-233 and 266-268.\<close>

definition Postback_verify_1 :: "library \<Rightarrow> Postback \<Rightarrow> panic + (bool \<times> error option)" where
  "Postback_verify_1 L p =
     (if Version p = ''2.1'' then
        bind_panic (Postback_toItems2_1 p) (\<lambda>items.
          Inr (verify L (pubV3 L) items (AttributionSignature p)))
      else if Version p = ''2.2'' then
        bind_panic (Postback_toItems2_2 p) (\<lambda>items.
          Inr (verify L (pubV3 L) items (AttributionSignature p)))
      else if Version p = ''3.0'' then
        bind_panic (Postback_toItems3_0 p) (\<lambda>items.
          Inr (verify L (pubV3 L) items (AttributionSignature p)))
      else Inr (False, Some (UnsupportedVersionError (Version p))))"

definition Verify_1 :: "library \<Rightarrow> Postback \<Rightarrow> panic + (bool \<times> error option)" where
  "Verify_1 L p = Postback_verify_1 L p"

subsection \<open>The signer\<close>

text \<open>
  \<^verbatim>\<open>Signer\<close> holds a pointer to the private key. Both \<^verbatim>\<open>SignASN1\<close> and the expression
  \<^verbatim>\<open>&s.key.PublicKey\<close> read through it.
\<close>

record Signer =
  key :: "ecdsa_PrivateKey option"

definition Signer_sign :: "library \<Rightarrow> bytes \<Rightarrow> Signer \<Rightarrow> string \<Rightarrow> panic + (string \<times> error option)" where
  "Signer_sign L rnd s msg =
     (let h = hash L msg in
      bind_panic (deref (key s)) (\<lambda>k.
        case SignASN1 L rnd k h of
          Inl e \<Rightarrow> Inr ([], Some (SignMessageError (LibraryError e)))
        | Inr der \<Rightarrow> Inr (EncodeToString der, None)))"

definition Signer_Sign :: "library \<Rightarrow> bytes \<Rightarrow> Signer \<Rightarrow> Params \<Rightarrow> panic + (string \<times> error option)" where
  "Signer_Sign L rnd s p =
     (let msg = Join (Params_toItems p) separator in Signer_sign L rnd s msg)"

definition Signer_Verify :: "library \<Rightarrow> Signer \<Rightarrow> Params \<Rightarrow> string \<Rightarrow> panic + (bool \<times> error option)" where
  "Signer_Verify L s p sig =
     bind_panic (deref (key s)) (\<lambda>k.
       Inr (verify L (PublicKey k) (Params_toItems p) sig))"

subsection \<open>Loading the key\<close>

text \<open>Second listing, lines 584-603: one block, the private key.\<close>

definition decodePEM :: "library \<Rightarrow> string \<Rightarrow> ecdsa_PrivateKey option \<times> error option" where
  "decodePEM L data =
     (case pem_Decode L data of
        (None, rest) \<Rightarrow> (None, Some DataBlockNotFound)
      | (Some block, rest) \<Rightarrow>
          if length rest \<noteq> 0 then (None, Some Only2BlocksAllowed)
          else if Type block \<noteq> ''EC PRIVATE KEY'' then
            (None, Some (UnexpectedBlockType (Type block)))
          else
            (case ParseECPrivateKey L (Bytes block) of
               Inl e \<Rightarrow> (None, Some (BlockParseError (LibraryError e)))
             | Inr k \<Rightarrow> (Some k, None)))"

definition NewSigner :: "library \<Rightarrow> string \<Rightarrow> Signer option \<times> error option" where
  "NewSigner L pem =
     (case decodePEM L pem of
        (k, Some err) \<Rightarrow> (None, Some (PemDataDecodeError err))
      | (k, None) \<Rightarrow> (Some \<lparr>key = k\<rparr>, None))"

text \<open>
  First listing, lines 278-284 and 302-338: two blocks, a private key and a public key.
  The type assertion \<^verbatim>\<open>pub.(*ecdsa.PublicKey)\<close> has no second result, so it panics on a
  key of another algorithm.
\<close>

definition parseECDSAPublicKey_1 :: "library \<Rightarrow> bytes \<Rightarrow> panic + (ecdsa_PublicKey option \<times> error option)" where
  "parseECDSAPublicKey_1 L bs =
     (case ParsePKIXPublicKey L bs of
        Inl e \<Rightarrow> Inr (None, Some (ParsePublicKeyError (LibraryError e)))
      | Inr (ECDSA_Key pub) \<Rightarrow> Inr (Some pub, None)
      | Inr (Other_Key _) \<Rightarrow> Inl InterfaceConversion)"

text \<open>
  The loop over the two blocks, with the variables \<^verbatim>\<open>key\<close> and \<^verbatim>\<open>pub\<close> as its state. It
  ends early with \<open>Inr (Inl err)\<close> where the source returns from inside the loop.
\<close>

fun decodePEM_blocks ::
  "library \<Rightarrow> pem_Block list \<Rightarrow> ecdsa_PrivateKey option \<times> ecdsa_PublicKey option \<Rightarrow>
   panic + (error + ecdsa_PrivateKey option \<times> ecdsa_PublicKey option)" where
  "decodePEM_blocks L [] (k, pub) = Inr (Inr (k, pub))"
| "decodePEM_blocks L (block # blocks) (k, pub) =
     (if Type block = ''EC PRIVATE KEY'' then
        (case ParseECPrivateKey L (Bytes block) of
           Inl e \<Rightarrow> Inr (Inl (BlockParseError (LibraryError e)))
         | Inr k' \<Rightarrow> decodePEM_blocks L blocks (Some k', pub))
      else if Type block = ''PUBLIC KEY'' then
        (case parseECDSAPublicKey_1 L (Bytes block) of
           Inl pnc \<Rightarrow> Inl pnc
         | Inr (pub', Some err) \<Rightarrow> Inr (Inl (BlockParseError err))
         | Inr (pub', None) \<Rightarrow> decodePEM_blocks L blocks (k, pub'))
      else Inr (Inl (UnexpectedBlockType (Type block))))"

definition decodePEM_1 :: "library \<Rightarrow> string \<Rightarrow> panic + (ecdsa_PrivateKey option \<times> error option)" where
  "decodePEM_1 L data =
     (case pem_Decode L data of
        (None, rest) \<Rightarrow> Inr (None, Some DataBlockNotFound)
      | (Some block0, rest) \<Rightarrow>
          (case pem_Decode L rest of
             (None, rest) \<Rightarrow> Inr (None, Some DataBlockNotFound)
           | (Some block1, rest) \<Rightarrow>
               if length rest \<noteq> 0 then Inr (None, Some Only2BlocksAllowed)
               else
                 (case decodePEM_blocks L [block0, block1] (None, None) of
                    Inl pnc \<Rightarrow> Inl pnc
                  | Inr (Inl err) \<Rightarrow> Inr (None, Some err)
                  | Inr (Inr (Some k, Some pub)) \<Rightarrow> Inr (Some (k\<lparr>PublicKey := pub\<rparr>), None)
                  | Inr (Inr _) \<Rightarrow> Inr (None, Some KeysNotIncluded))))"

definition NewSigner_1 :: "library \<Rightarrow> string \<Rightarrow> panic + (Signer option \<times> error option)" where
  "NewSigner_1 L pem =
     bind_panic (decodePEM_1 L pem) (\<lambda>r.
       case r of
         (k, Some err) \<Rightarrow> Inr (None, Some (PemDataDecodeError err))
       | (k, None) \<Rightarrow> Inr (Some \<lparr>key = k\<rparr>, None))"

text \<open>
  A block that one turn of the loop takes without an error and without a panic: a
  private key block that parses, or a public key block that parses to an ECDSA key.
\<close>

definition block_accepted :: "library \<Rightarrow> pem_Block \<Rightarrow> bool" where
  "block_accepted L b =
     (if Type b = ''EC PRIVATE KEY'' then
        (case ParseECPrivateKey L (Bytes b) of Inl e \<Rightarrow> False | Inr k \<Rightarrow> True)
      else if Type b = ''PUBLIC KEY'' then
        (case ParsePKIXPublicKey L (Bytes b) of
           Inr (ECDSA_Key pub) \<Rightarrow> True
         | _ \<Rightarrow> False)
      else False)"

subsection \<open>Records of the package's tests\<close>

text \<open>The postbacks of \<^verbatim>\<open>skadnetwork_test.go\<close>, as \<^verbatim>\<open>TestMarshalJSON\<close> expects them decoded.\<close>

definition v2_2 :: Postback where
  "v2_2 = \<lparr>Version = ''2.2'',
            AdNetworkID = ''com.example'',
            TransactionID = ''6aafb7a5-0170-41b5-bbe4-fe71dedf1e28'',
            CampaignID = 42,
            AppID = 525463029,
            AttributionSignature = ''MEYCIQDTuQ1Z4Tpy9D3aEKbxLl5J5iKiTumcqZikuY/AOD2U7QIhAJAaiAv89AoquHXJffcieEQXdWHpcV8ZgbKN0EwV9/sY'',
            Redownload = Some True,
            SourceAppID = Some 1234567891,
            FidelityType = Some SKRenderedAds,
            ConversionValue = Some 20,
            DidWin = None\<rparr>"

definition v3_0_lose :: Postback where
  "v3_0_lose = \<lparr>Version = ''3.0'',
            AdNetworkID = ''example123.skadnetwork'',
            TransactionID = ''f9ac267a-a889-44ce-b5f7-0166d11461f0'',
            CampaignID = 42,
            AppID = 525463029,
            AttributionSignature = ''MEUCIQDDetUtkyc/MiQvVJ5I6HIO1E7l598572Wljot2Onzd4wIgVJLzVcyAV+TXksGNoa0DTMXEPgNPeHCmD4fw1ABXX0g='',
            Redownload = Some True,
            SourceAppID = None,
            FidelityType = Some SKRenderedAds,
            ConversionValue = None,
            DidWin = Some False\<rparr>"

text \<open>
  The parameters of \<^verbatim>\<open>TestSignAndVerify\<close>, which leaves \<^verbatim>\<open>Version\<close> unset, and the
  version 2.2 example of the README. The nonce is
  \<^verbatim>\<open>uuid.MustParse("68483ef6-0ada-40df-ab6b-3d19a66330fa")\<close> and the timestamp is
  \<^verbatim>\<open>time.Parse(time.RFC3339, "2022-05-06T10:00:00Z")\<close>.
\<close>

definition nonce_test :: UUID where
  "nonce_test = 0x68483ef60ada40dfab6b3d19a66330fa"

definition timestamp_test :: Time where
  "timestamp_test = \<lparr>unixSec = 1651831200, nsec = 0\<rparr>"

definition params_unversioned :: Params where
  "params_unversioned =
     \<lparr>Params.Version = [],
      Params.AdNetworkID = ''example123.skadnetwork'',
      Params.CampaignID = 42,
      ItunesItemID = 525463029,
      Nonce = nonce_test,
      SourceAppStoreID = 1234567891,
      Params.FidelityType = 0,
      Timestamp = timestamp_test\<rparr>"

definition params_2_2 :: Params where
  "params_2_2 =
     \<lparr>Params.Version = ''2.2'',
      Params.AdNetworkID = ''example123.skadnetwork'',
      Params.CampaignID = 42,
      ItunesItemID = 525463029,
      Nonce = nonce_test,
      SourceAppStoreID = 1234567891,
      Params.FidelityType = SKRenderedAds,
      Timestamp = timestamp_test\<rparr>"

subsection \<open>A stand-in library for running the model\<close>

text \<open>
  To run the functions that take the library as a parameter, a small executable library.
  A key is one byte \<open>d\<close>; the public key that belongs to it has \<open>X = d\<close>. A signature
  is the key byte, then the digest, then the random bytes drawn; signing fails when no
  random bytes are left. The digest is the message itself. PEM text is read two
  characters at a time: \<^verbatim>\<open>K\<close>, \<^verbatim>\<open>P\<close> or \<^verbatim>\<open>C\<close> for a block of type \<^verbatim>\<open>EC PRIVATE KEY\<close>,
  \<^verbatim>\<open>PUBLIC KEY\<close> or \<^verbatim>\<open>CERTIFICATE\<close>, then one character that is the block's only byte;
  anything else is not a block. A key block parses when its byte is not \<^verbatim>\<open>?\<close>; a
  public key block with byte \<^verbatim>\<open>r\<close> holds a key of another algorithm.
\<close>

definition demo_Sum256 :: "string \<Rightarrow> bytes" where
  "demo_Sum256 msg = map (\<lambda>c. of_nat (of_char c)) msg"

definition demo_public :: "8 word \<Rightarrow> ecdsa_PublicKey" where
  "demo_public d = \<lparr>Curve = ''P-256'', X = uint d, Y = 0\<rparr>"

definition demo_private :: "8 word \<Rightarrow> ecdsa_PrivateKey" where
  "demo_private d = \<lparr>PublicKey = demo_public d, D = uint d\<rparr>"

definition demo_SignASN1 :: "bytes \<Rightarrow> ecdsa_PrivateKey \<Rightarrow> bytes \<Rightarrow> string + bytes" where
  "demo_SignASN1 rnd k h =
     (if rnd = [] then Inl ''EOF'' else Inr (word_of_int (D k) # h @ rnd))"

definition demo_VerifyASN1 :: "ecdsa_PublicKey \<Rightarrow> bytes \<Rightarrow> bytes \<Rightarrow> bool" where
  "demo_VerifyASN1 pub h der =
     (Suc (length h) < length der \<and> take (Suc (length h)) der = word_of_int (X pub) # h)"

definition demo_ParseECPrivateKey :: "bytes \<Rightarrow> string + ecdsa_PrivateKey" where
  "demo_ParseECPrivateKey bs =
     (if length bs = 1 \<and> bs \<noteq> [63] then Inr (demo_private (hd bs))
      else Inl ''x509: failed to parse EC private key'')"

definition demo_ParsePKIXPublicKey :: "bytes \<Rightarrow> string + x509_PublicKey" where
  "demo_ParsePKIXPublicKey bs =
     (if length bs = 1 \<and> bs \<noteq> [63] then
        (if bs = [114] then Inr (Other_Key ''RSA'') else Inr (ECDSA_Key (demo_public (hd bs))))
      else Inl ''x509: failed to parse public key'')"

fun demo_pem_Decode :: "string \<Rightarrow> pem_Block option \<times> string" where
  "demo_pem_Decode (t # b # rest) =
     (if t = CHR ''K'' then
        (Some \<lparr>Type = ''EC PRIVATE KEY'', Bytes = [of_nat (of_char b)]\<rparr>, rest)
      else if t = CHR ''P'' then
        (Some \<lparr>Type = ''PUBLIC KEY'', Bytes = [of_nat (of_char b)]\<rparr>, rest)
      else if t = CHR ''C'' then
        (Some \<lparr>Type = ''CERTIFICATE'', Bytes = [of_nat (of_char b)]\<rparr>, rest)
      else (None, t # b # rest))"
| "demo_pem_Decode s = (None, s)"

definition demo_library :: library where
  "demo_library =
     \<lparr>Sum256 = demo_Sum256,
      SignASN1 = demo_SignASN1,
      VerifyASN1 = demo_VerifyASN1,
      ParseECPrivateKey = demo_ParseECPrivateKey,
      ParsePKIXPublicKey = demo_ParsePKIXPublicKey,
      pem_Decode = demo_pem_Decode,
      pubV3 = demo_public 7\<rparr>"

section \<open>Properties\<close>

subsection \<open>Evaluation lemmas\<close>

lemma deref_simps [simp]:
  "deref None = Inl NilPointerDereference" "deref (Some v) = Inr v"
  by (simp_all add: deref_def)

lemma bind_panic_simps [simp]:
  "bind_panic (Inl e) f = Inl e" "bind_panic (Inr v) f = f v"
  by (simp_all add: bind_panic_def)

lemma FormatInt_42: "FormatInt 42 = ''42''"
  by (simp add: FormatInt_def formatBits.simps digits_def)

lemma FormatInt_525463029: "FormatInt 525463029 = ''525463029''"
  by (simp add: FormatInt_def formatBits.simps digits_def)

lemma FormatInt_1234567891: "FormatInt 1234567891 = ''1234567891''"
  by (simp add: FormatInt_def formatBits.simps digits_def)

lemma FormatInt_1: "FormatInt 1 = ''1''"
  by (simp add: FormatInt_def formatBits.simps digits_def)

subsection \<open>The item sequence of a postback\<close>

lemma Postback_toItems_eq:
  "Postback_toItems p =
     (if Redownload p = None
         \<or> ((Version p = ''2.2'' \<or> Version p = ''3.0'') \<and> FidelityType p = None)
         \<or> (Version p = ''3.0'' \<and> DidWin p = None)
      then Inl NilPointerDereference
      else Inr ([Version p, AdNetworkID p, Itoa (CampaignID p), FormatInt (AppID p),
                 TransactionID p, FormatBool (the (Redownload p))]
                @ (case SourceAppID p of None \<Rightarrow> [] | Some a \<Rightarrow> [FormatInt a])
                @ (if Version p = ''2.2'' \<or> Version p = ''3.0''
                   then [FidelityType_String (the (FidelityType p))] else [])
                @ (if Version p = ''3.0'' then [FormatBool (the (DidWin p))] else [])))"
  by (cases "Redownload p"; cases "FidelityType p"; cases "DidWin p"; cases "SourceAppID p")
     (simp_all add: Postback_toItems_def Let_def)

lemma Postback_toItems2_1_eq:
  "Version p = ''2.1'' \<Longrightarrow> Postback_toItems2_1 p = Postback_toItems p"
  by (cases "Redownload p"; cases "SourceAppID p")
     (simp_all add: Postback_toItems_def Postback_toItems2_1_def Let_def)

lemma Postback_toItems2_2_eq:
  "Version p = ''2.2'' \<Longrightarrow> Postback_toItems2_2 p = Postback_toItems p"
  by (cases "Redownload p"; cases "SourceAppID p")
     (simp_all add: Postback_toItems_def Postback_toItems2_2_def Let_def)

lemma Postback_toItems3_0_eq:
  "Version p = ''3.0'' \<Longrightarrow> Postback_toItems3_0 p = Postback_toItems p"
  by (cases "Redownload p"; cases "SourceAppID p")
     (simp_all add: Postback_toItems_def Postback_toItems3_0_def Let_def)

text \<open>
  C1. For a postback whose version tag is 2.1, 2.2 or 3.0, \<^verbatim>\<open>toItems\<close> either panics
  (exactly when a flag it reads through a nil pointer is absent) or returns the six
  items version, ad-network id, campaign id, app id, transaction id, redownload in that
  order, then the source-app id item only when \<^verbatim>\<open>SourceAppID\<close> is present, then the
  fidelity item exactly for 2.2 and 3.0, then the win flag exactly for 3.0. The
  per-version functions of the first listing return the same on their version.
\<close>

theorem postback_items_layout:
  assumes "Version p = ''2.1'' \<or> Version p = ''2.2'' \<or> Version p = ''3.0''"
  shows "Postback_toItems p =
     (if Redownload p = None
         \<or> ((Version p = ''2.2'' \<or> Version p = ''3.0'') \<and> FidelityType p = None)
         \<or> (Version p = ''3.0'' \<and> DidWin p = None)
      then Inl NilPointerDereference
      else Inr ([Version p, AdNetworkID p, Itoa (CampaignID p), FormatInt (AppID p),
                 TransactionID p, FormatBool (the (Redownload p))]
                @ (case SourceAppID p of None \<Rightarrow> [] | Some a \<Rightarrow> [FormatInt a])
                @ (if Version p = ''2.2'' \<or> Version p = ''3.0''
                   then [FidelityType_String (the (FidelityType p))] else [])
                @ (if Version p = ''3.0'' then [FormatBool (the (DidWin p))] else [])))
     \<and> (Version p = ''2.1'' \<longrightarrow> Postback_toItems2_1 p = Postback_toItems p)
     \<and> (Version p = ''2.2'' \<longrightarrow> Postback_toItems2_2 p = Postback_toItems p)
     \<and> (Version p = ''3.0'' \<longrightarrow> Postback_toItems3_0 p = Postback_toItems p)"
  using Postback_toItems_eq [of p] Postback_toItems2_1_eq [of p] Postback_toItems2_2_eq [of p]
    Postback_toItems3_0_eq [of p]
  by blast

theorem postback_items_layout_witness:
  "Postback_toItems v3_0_lose =
     Inr [''3.0'', ''example123.skadnetwork'', ''42'', ''525463029'',
          ''f9ac267a-a889-44ce-b5f7-0166d11461f0'', ''true'', ''1'', ''false'']
   \<and> Postback_toItems3_0 v3_0_lose = Postback_toItems v3_0_lose"
  using postback_items_layout [of v3_0_lose]
  by (simp add: v3_0_lose_def Itoa_def FormatInt_42 FormatInt_525463029 FormatInt_1
      FormatBool_def FidelityType_String_def SKRenderedAds_def)

subsection \<open>Fields that are left out\<close>

lemma Postback_toItems_ConversionValue:
  "Postback_toItems (p\<lparr>ConversionValue := c\<rparr>) = Postback_toItems p"
  "Postback_toItems2_1 (p\<lparr>ConversionValue := c\<rparr>) = Postback_toItems2_1 p"
  "Postback_toItems2_2 (p\<lparr>ConversionValue := c\<rparr>) = Postback_toItems2_2 p"
  "Postback_toItems3_0 (p\<lparr>ConversionValue := c\<rparr>) = Postback_toItems3_0 p"
  by (simp_all add: Postback_toItems_def Postback_toItems2_1_def Postback_toItems2_2_def
      Postback_toItems3_0_def cong: if_cong)

text \<open>
  C10. The conversion value is not part of the item sequence: setting the
  \<^verbatim>\<open>ConversionValue\<close> field to any other value (present or absent) changes neither the
  items, and so not the message joined from them, nor the result of verification. This
  holds for every version tag, in both listings.
\<close>

theorem conversion_value_not_signed:
  "Postback_toItems (p\<lparr>ConversionValue := c\<rparr>) = Postback_toItems p
   \<and> Postback_toItems2_1 (p\<lparr>ConversionValue := c\<rparr>) = Postback_toItems2_1 p
   \<and> Postback_toItems2_2 (p\<lparr>ConversionValue := c\<rparr>) = Postback_toItems2_2 p
   \<and> Postback_toItems3_0 (p\<lparr>ConversionValue := c\<rparr>) = Postback_toItems3_0 p
   \<and> Verify L (p\<lparr>ConversionValue := c\<rparr>) = Verify L p
   \<and> Verify_1 L (p\<lparr>ConversionValue := c\<rparr>) = Verify_1 L p"
  by (simp add: Verify_def Verify_1_def Postback_verify_def Postback_verify_1_def
      Postback_toItems_ConversionValue cong: if_cong)

lemma Postback_toItems_omit_source:
  assumes "SourceAppID p = Some a"
  shows "Postback_toItems (p\<lparr>SourceAppID := None\<rparr>) =
           map_sum id (\<lambda>items. take 6 items @ drop 7 items) (Postback_toItems p)"
  using assms
  by (cases "Redownload p"; cases "FidelityType p"; cases "DidWin p")
     (simp_all add: Postback_toItems_def Let_def)

lemma Postback_toItems_source_item:
  assumes "SourceAppID p = Some a" and "Postback_toItems p = Inr items"
  shows "6 < length items \<and> items ! 6 = FormatInt a"
  using assms
  by (cases "Redownload p"; cases "FidelityType p"; cases "DidWin p")
     (auto simp add: Postback_toItems_def Let_def split: if_splits)

text \<open>
  C8. Let a postback with a supported version carry a source-app id, and let a second
  postback differ from it only in omitting that field. Then the second one's item
  sequence is the first one's with the item at index 6, the source-app id, removed and
  every other item kept in place and order (and when the first panics, so does the
  second). The same holds for the per-version functions of the first listing.
\<close>

theorem source_app_id_omission:
  assumes "Version p = ''2.1'' \<or> Version p = ''2.2'' \<or> Version p = ''3.0''"
    and "SourceAppID p = Some a"
  shows "Postback_toItems (p\<lparr>SourceAppID := None\<rparr>) =
           map_sum id (\<lambda>items. take 6 items @ drop 7 items) (Postback_toItems p)
     \<and> (\<forall>items. Postback_toItems p = Inr items \<longrightarrow> 6 < length items \<and> items ! 6 = FormatInt a)
     \<and> (Version p = ''2.1'' \<longrightarrow> Postback_toItems2_1 (p\<lparr>SourceAppID := None\<rparr>) =
           map_sum id (\<lambda>items. take 6 items @ drop 7 items) (Postback_toItems2_1 p))
     \<and> (Version p = ''2.2'' \<longrightarrow> Postback_toItems2_2 (p\<lparr>SourceAppID := None\<rparr>) =
           map_sum id (\<lambda>items. take 6 items @ drop 7 items) (Postback_toItems2_2 p))
     \<and> (Version p = ''3.0'' \<longrightarrow> Postback_toItems3_0 (p\<lparr>SourceAppID := None\<rparr>) =
           map_sum id (\<lambda>items. take 6 items @ drop 7 items) (Postback_toItems3_0 p))"
proof -
  let ?q = "p\<lparr>SourceAppID := None\<rparr>"
  have q: "Version ?q = Version p" by simp
  have main: "Postback_toItems ?q =
           map_sum id (\<lambda>items. take 6 items @ drop 7 items) (Postback_toItems p)"
    using assms(2) by (rule Postback_toItems_omit_source)
  have item: "\<forall>items. Postback_toItems p = Inr items \<longrightarrow> 6 < length items \<and> items ! 6 = FormatInt a"
    using Postback_toItems_source_item [OF assms(2)] by blast
  have v21: "Version p = ''2.1'' \<longrightarrow> Postback_toItems2_1 ?q =
           map_sum id (\<lambda>items. take 6 items @ drop 7 items) (Postback_toItems2_1 p)"
    using main q Postback_toItems2_1_eq [of p] Postback_toItems2_1_eq [of ?q] by metis
  have v22: "Version p = ''2.2'' \<longrightarrow> Postback_toItems2_2 ?q =
           map_sum id (\<lambda>items. take 6 items @ drop 7 items) (Postback_toItems2_2 p)"
    using main q Postback_toItems2_2_eq [of p] Postback_toItems2_2_eq [of ?q] by metis
  have v30: "Version p = ''3.0'' \<longrightarrow> Postback_toItems3_0 ?q =
           map_sum id (\<lambda>items. take 6 items @ drop 7 items) (Postback_toItems3_0 p)"
    using main q Postback_toItems3_0_eq [of p] Postback_toItems3_0_eq [of ?q] by metis
  from main item v21 v22 v30 show ?thesis by blast
qed

lemma Postback_toItems_v2_2:
  "Postback_toItems v2_2 =
     Inr [''2.2'', ''com.example'', ''42'', ''525463029'',
          ''6aafb7a5-0170-41b5-bbe4-fe71dedf1e28'', ''true'', ''1234567891'', ''1'']"
  by (simp add: Postback_toItems_eq v2_2_def Itoa_def FormatInt_42 FormatInt_525463029
      FormatInt_1 FormatInt_1234567891 FormatBool_def FidelityType_String_def SKRenderedAds_def)

theorem source_app_id_omission_witness:
  "Postback_toItems v2_2 =
     Inr [''2.2'', ''com.example'', ''42'', ''525463029'',
          ''6aafb7a5-0170-41b5-bbe4-fe71dedf1e28'', ''true'', ''1234567891'', ''1'']
   \<and> Postback_toItems (v2_2\<lparr>SourceAppID := None\<rparr>) =
     Inr [''2.2'', ''com.example'', ''42'', ''525463029'',
          ''6aafb7a5-0170-41b5-bbe4-fe71dedf1e28'', ''true'', ''1'']"
proof -
  have v: "Version v2_2 = ''2.1'' \<or> Version v2_2 = ''2.2'' \<or> Version v2_2 = ''3.0''"
    by (simp add: v2_2_def)
  have s: "SourceAppID v2_2 = Some 1234567891"
    by (simp add: v2_2_def)
  show ?thesis
    using source_app_id_omission [OF v s] by (simp add: Postback_toItems_v2_2)
qed

subsection \<open>Absent flags\<close>

text \<open>
  C7. The claim is that a postback with a supported version whose redownload flag (or,
  for 3.0, win flag) is absent makes verification return an error value. The code reads
  the flag through the nil pointer instead: verification of the test postbacks with
  the flag removed ends in a nil pointer dereference panic, in both listings.
\<close>

theorem missing_flag_panics:
  "Verify L (v3_0_lose\<lparr>Redownload := None\<rparr>) = Inl NilPointerDereference
   \<and> Verify L (v3_0_lose\<lparr>DidWin := None\<rparr>) = Inl NilPointerDereference
   \<and> Verify_1 L (v3_0_lose\<lparr>Redownload := None\<rparr>) = Inl NilPointerDereference
   \<and> Verify_1 L (v3_0_lose\<lparr>DidWin := None\<rparr>) = Inl NilPointerDereference
   \<and> Verify L (v2_2\<lparr>Redownload := None\<rparr>) = Inl NilPointerDereference
   \<and> Verify_1 L (v2_2\<lparr>Redownload := None\<rparr>) = Inl NilPointerDereference"
  by (simp add: Verify_def Verify_1_def Postback_verify_def Postback_verify_1_def
      Postback_toItems_def Postback_toItems3_0_def Postback_toItems2_2_def v3_0_lose_def v2_2_def)


subsection \<open>The item sequence of the test parameters\<close>

lemma UUID_String_nonce_test:
  "UUID_String nonce_test = ''68483ef6-0ada-40df-ab6b-3d19a66330fa''"
  by (simp add: nonce_test_def UUID_String_def uuid_bytes_def uuid_byte_def hextable_def
      upt_rec [of _ "numeral _"])

lemma FormatInt_timestamp_test:
  "FormatInt (UnixMilli timestamp_test) = ''1651831200000''"
  by (simp add: timestamp_test_def UnixMilli_def FormatInt_def formatBits.simps digits_def)

lemma Params_toItems_unversioned:
  "Params_toItems params_unversioned =
     [[], ''example123.skadnetwork'', ''42'', ''525463029'',
      ''68483ef6-0ada-40df-ab6b-3d19a66330fa'', ''1234567891'', ''1651831200000'']"
  by (simp add: Params_toItems_def params_unversioned_def Itoa_def FormatInt_42
      FormatInt_525463029 FormatInt_1234567891 UUID_String_nonce_test FormatInt_timestamp_test)

lemma Params_toItems_2_2:
  "Params_toItems params_2_2 =
     [''2.2'', ''example123.skadnetwork'', ''42'', ''525463029'',
      ''68483ef6-0ada-40df-ab6b-3d19a66330fa'', ''1234567891'', ''1'', ''1651831200000'']"
  by (simp add: Params_toItems_def params_2_2_def Itoa_def FormatInt_42
      FormatInt_525463029 FormatInt_1234567891 UUID_String_nonce_test FormatInt_timestamp_test
      FidelityType_String_def SKRenderedAds_def FormatInt_1)

subsection \<open>Verification results\<close>

lemma verify_cases:
  "verify L k items sig =
     (case DecodeString sig of
        None \<Rightarrow> (False, Some (SignatureDecodeError sig))
      | Some der \<Rightarrow> (VerifyASN1 L k (hash L (Join items separator)) der, None))"
  by (simp add: verify_def Let_def split: option.splits)

lemma verify_error_kind:
  "snd (verify L k items sig) \<noteq> Some (UnsupportedVersionError v)"
  by (simp add: verify_cases split: option.splits)

text \<open>
  C3 (amended). A postback whose version tag is none of 2.1, 2.2, 3.0 makes postback
  verification return \<open>false\<close> with the unsupported-version error, in both listings;
  no items are built. Parameter signing and parameter verification have no version gate:
  they never return the unsupported-version error, and for every tag other than 2.2 and
  3.0 the items are version, ad-network id, campaign id, product id, nonce,
  source-app-store id and timestamp, the layout of 2.1.
\<close>

theorem version_gate:
  assumes "Version p \<noteq> ''2.1''" and "Version p \<noteq> ''2.2''" and "Version p \<noteq> ''3.0''"
  shows "Verify L p = Inr (False, Some (UnsupportedVersionError (Version p)))
     \<and> Verify_1 L p = Inr (False, Some (UnsupportedVersionError (Version p)))
     \<and> (\<forall>q rnd s sg v. Signer_Sign L rnd s q \<noteq> Inr (sg, Some (UnsupportedVersionError v)))
     \<and> (\<forall>q s sg b v. Signer_Verify L s q sg \<noteq> Inr (b, Some (UnsupportedVersionError v)))
     \<and> (\<forall>q. Params.Version q \<noteq> ''2.2'' \<and> Params.Version q \<noteq> ''3.0'' \<longrightarrow>
           Params_toItems q =
             [Params.Version q, Params.AdNetworkID q, Itoa (Params.CampaignID q),
              FormatInt (ItunesItemID q), UUID_String (Nonce q),
              FormatInt (SourceAppStoreID q), FormatInt (UnixMilli (Timestamp q))])"
proof -
  have a: "Verify L p = Inr (False, Some (UnsupportedVersionError (Version p)))"
    using assms by (simp add: Verify_def Postback_verify_def)
  have b: "Verify_1 L p = Inr (False, Some (UnsupportedVersionError (Version p)))"
    using assms by (simp add: Verify_1_def Postback_verify_1_def)
  have c: "Signer_Sign L rnd s q \<noteq> Inr (sg, Some (UnsupportedVersionError v))" for q rnd s sg v
    by (cases "key s")
       (auto simp: Signer_Sign_def Signer_sign_def Let_def split: sum.splits)
  have d: "Signer_Verify L s q sg \<noteq> Inr (b, Some (UnsupportedVersionError v))" for q s sg b v
    by (cases "key s")
       (auto simp: Signer_Verify_def verify_cases split: option.splits)
  have e: "Params.Version q \<noteq> ''2.2'' \<and> Params.Version q \<noteq> ''3.0'' \<longrightarrow>
           Params_toItems q =
             [Params.Version q, Params.AdNetworkID q, Itoa (Params.CampaignID q),
              FormatInt (ItunesItemID q), UUID_String (Nonce q),
              FormatInt (SourceAppStoreID q), FormatInt (UnixMilli (Timestamp q))]" for q
    by (simp add: Params_toItems_def)
  from a b c d e show ?thesis by blast
qed

theorem version_gate_witness:
  "Verify demo_library (v2_2\<lparr>Version := ''2.0''\<rparr>)
     = Inr (False, Some (UnsupportedVersionError ''2.0''))
   \<and> Verify_1 demo_library (v2_2\<lparr>Version := ''2.0''\<rparr>)
     = Inr (False, Some (UnsupportedVersionError ''2.0''))"
proof -
  have "Version (v2_2\<lparr>Version := ''2.0''\<rparr>) \<noteq> ''2.1''"
    "Version (v2_2\<lparr>Version := ''2.0''\<rparr>) \<noteq> ''2.2''"
    "Version (v2_2\<lparr>Version := ''2.0''\<rparr>) \<noteq> ''3.0''"
    by simp_all
  from version_gate [OF this, of demo_library] show ?thesis by simp
qed

text \<open>
  The claim as stated fails for the parameters of \<^verbatim>\<open>TestSignAndVerify\<close>, whose version tag
  is empty: signing returns a signature and no error, and verifying returns a boolean
  and no error.
\<close>

theorem version_gate_counterexample:
  "Params.Version params_unversioned \<notin> {''2.1'', ''2.2'', ''3.0''}
   \<and> map_sum id snd
         (Signer_Sign demo_library [9] \<lparr>key = Some (demo_private 5)\<rparr> params_unversioned)
        = Inr None
   \<and> Signer_Verify demo_library \<lparr>key = Some (demo_private 5)\<rparr> params_unversioned []
        = Inr (False, None)"
  by (simp add: params_unversioned_def Signer_Sign_def Signer_sign_def Let_def demo_library_def
      demo_SignASN1_def Signer_Verify_def verify_def DecodeString_def demo_VerifyASN1_def)

text \<open>
  C5. For every public key, item sequence and signature string: when the signature
  string does not decode as standard base64, \<^verbatim>\<open>verify\<close> returns \<open>false\<close> together with the
  signature-decode error; when it decodes, \<^verbatim>\<open>verify\<close> returns the boolean of
  \<^verbatim>\<open>ecdsa.VerifyASN1\<close> on the SHA-256 digest of the joined items, and no error. The result
  type has no panic branch.
\<close>

theorem verify_result:
  "(DecodeString sig = None \<longrightarrow>
      verify L k items sig = (False, Some (SignatureDecodeError sig)))
   \<and> (\<forall>der. DecodeString sig = Some der \<longrightarrow>
      verify L k items sig = (VerifyASN1 L k (hash L (Join items separator)) der, None))"
  by (simp add: verify_cases)

theorem verify_result_witness:
  "verify demo_library (demo_public 5) [''a'', ''b''] ''not base64!''
     = (False, Some (SignatureDecodeError ''not base64!''))
   \<and> DecodeString ''AQID'' = Some [1, 2, 3]
   \<and> verify demo_library (demo_public 5) [''a'', ''b''] ''AQID'' = (False, None)"
proof -
  have n: "DecodeString ''not base64!'' = None"
    by (simp add: DecodeString_def decodeMap_def encodeStd_def quantum_def)
  have s: "DecodeString ''AQID'' = Some [1, 2, 3]"
    by (simp add: DecodeString_def decodeMap_def encodeStd_def quantum_def)
  show ?thesis
    using verify_result [of "''not base64!''" demo_library "demo_public 5" "[''a'', ''b'']"]
      verify_result [of "''AQID''" demo_library "demo_public 5" "[''a'', ''b'']"] n s
    by (simp add: demo_library_def demo_VerifyASN1_def hash_def demo_Sum256_def)
qed


subsection \<open>Loading the key\<close>

lemma decodePEM_Some_iff:
  "decodePEM L data = (Some k, e) \<longleftrightarrow>
     e = None \<and> (\<exists>b. pem_Decode L data = (Some b, []) \<and> Type b = ''EC PRIVATE KEY''
                     \<and> ParseECPrivateKey L (Bytes b) = Inr k)"
  by (cases "pem_Decode L data")
     (auto simp: decodePEM_def split: option.splits sum.splits)

lemma decodePEM_None:
  "decodePEM L data = (None, e) \<Longrightarrow> e \<noteq> None"
  by (cases "pem_Decode L data")
     (auto simp: decodePEM_def split: option.splits sum.splits if_splits)

lemma decodePEM_rest:
  "pem_Decode L data = (Some b, r) \<Longrightarrow> r \<noteq> [] \<Longrightarrow>
     decodePEM L data = (None, Some Only2BlocksAllowed)"
  by (simp add: decodePEM_def)

lemma decodePEM_no_block:
  "fst (pem_Decode L data) = None \<Longrightarrow> decodePEM L data = (None, Some DataBlockNotFound)"
  by (cases "pem_Decode L data") (simp add: decodePEM_def)

lemma decodePEM_type:
  "pem_Decode L data = (Some b, []) \<Longrightarrow> Type b \<noteq> ''EC PRIVATE KEY'' \<Longrightarrow>
     decodePEM L data = (None, Some (UnexpectedBlockType (Type b)))"
  by (simp add: decodePEM_def)

lemma decodePEM_parse:
  "pem_Decode L data = (Some b, []) \<Longrightarrow> Type b = ''EC PRIVATE KEY'' \<Longrightarrow>
   ParseECPrivateKey L (Bytes b) = Inl m \<Longrightarrow>
     decodePEM L data = (None, Some (BlockParseError (LibraryError m)))"
  by (simp add: decodePEM_def)

lemma blocks_private:
  "Type b = ''EC PRIVATE KEY'' \<Longrightarrow> ParseECPrivateKey L (Bytes b) = Inr priv \<Longrightarrow>
   decodePEM_blocks L (b # bs) (k, pub) = decodePEM_blocks L bs (Some priv, pub)"
  by simp

lemma blocks_public:
  "Type b = ''PUBLIC KEY'' \<Longrightarrow> ParsePKIXPublicKey L (Bytes b) = Inr (ECDSA_Key p) \<Longrightarrow>
   decodePEM_blocks L (b # bs) (k, pub) = decodePEM_blocks L bs (k, Some p)"
  by (simp add: parseECDSAPublicKey_1_def)

lemma blocks_private_fail:
  "Type b = ''EC PRIVATE KEY'' \<Longrightarrow> ParseECPrivateKey L (Bytes b) = Inl m \<Longrightarrow>
   decodePEM_blocks L (b # bs) st = Inr (Inl (BlockParseError (LibraryError m)))"
  by (cases st) simp

lemma blocks_public_fail:
  "Type b = ''PUBLIC KEY'' \<Longrightarrow> ParsePKIXPublicKey L (Bytes b) = Inl m \<Longrightarrow>
   decodePEM_blocks L (b # bs) st =
     Inr (Inl (BlockParseError (ParsePublicKeyError (LibraryError m))))"
  by (cases st) (simp add: parseECDSAPublicKey_1_def)

lemma blocks_type:
  "Type b \<noteq> ''EC PRIVATE KEY'' \<Longrightarrow> Type b \<noteq> ''PUBLIC KEY'' \<Longrightarrow>
   decodePEM_blocks L (b # bs) st = Inr (Inl (UnexpectedBlockType (Type b)))"
  by (cases st) simp

lemma block_accepted_step:
  assumes "block_accepted L b"
  obtains st' where "decodePEM_blocks L (b # bs) (k, pub) = decodePEM_blocks L bs st'"
  using assms
  by (auto simp: block_accepted_def parseECDSAPublicKey_1_def
      split: if_splits sum.splits x509_PublicKey.splits)

lemma decodePEM_1_two:
  "pem_Decode L data = (Some b0, r0) \<Longrightarrow> pem_Decode L r0 = (Some b1, []) \<Longrightarrow>
   decodePEM_1 L data =
     (case decodePEM_blocks L [b0, b1] (None, None) of
        Inl pnc \<Rightarrow> Inl pnc
      | Inr (Inl err) \<Rightarrow> Inr (None, Some err)
      | Inr (Inr (Some k, Some pub)) \<Rightarrow> Inr (Some (k\<lparr>PublicKey := pub\<rparr>), None)
      | Inr (Inr _) \<Rightarrow> Inr (None, Some KeysNotIncluded))"
  by (simp add: decodePEM_1_def)

lemma decodePEM_1_exclusive:
  "decodePEM_1 L data = Inr (k, e) \<Longrightarrow> (k = None) \<noteq> (e = None)"
  by (auto simp: decodePEM_1_def split: prod.splits option.splits sum.splits if_splits)

lemma decodePEM_1_Some_iff:
  "decodePEM_1 L data = Inr (Some k, None) \<longleftrightarrow>
     (\<exists>b0 r0 b1 priv pub.
        pem_Decode L data = (Some b0, r0) \<and> pem_Decode L r0 = (Some b1, [])
        \<and> k = priv\<lparr>PublicKey := pub\<rparr>
        \<and> (Type b0 = ''EC PRIVATE KEY'' \<and> ParseECPrivateKey L (Bytes b0) = Inr priv
             \<and> Type b1 = ''PUBLIC KEY'' \<and> ParsePKIXPublicKey L (Bytes b1) = Inr (ECDSA_Key pub)
           \<or> Type b0 = ''PUBLIC KEY'' \<and> ParsePKIXPublicKey L (Bytes b0) = Inr (ECDSA_Key pub)
             \<and> Type b1 = ''EC PRIVATE KEY'' \<and> ParseECPrivateKey L (Bytes b1) = Inr priv))"
  (is "?lhs \<longleftrightarrow> ?rhs")
proof
  assume ?rhs
  then show ?lhs
    by (auto simp: decodePEM_1_def parseECDSAPublicKey_1_def)
next
  assume l: ?lhs
  then obtain b0 r0 where d0: "pem_Decode L data = (Some b0, r0)"
    by (cases "pem_Decode L data") (auto simp: decodePEM_1_def split: option.splits)
  with l obtain b1 r1 where d1: "pem_Decode L r0 = (Some b1, r1)"
    by (cases "pem_Decode L r0") (auto simp: decodePEM_1_def split: option.splits)
  from l d0 d1 have r1: "r1 = []"
    by (auto simp: decodePEM_1_def split: if_splits)
  from l d0 d1 r1 show ?rhs
    by (auto simp: decodePEM_1_def parseECDSAPublicKey_1_def
        split: if_splits sum.splits option.splits x509_PublicKey.splits prod.splits)
qed


lemma decodePEM_exclusive:
  "decodePEM L data = (k, e) \<Longrightarrow> (k = None) \<noteq> (e = None)"
  by (cases "pem_Decode L data")
     (auto simp: decodePEM_def split: option.splits sum.splits if_splits)

lemma decodePEM_1_no_block:
  "fst (pem_Decode L data) = None \<Longrightarrow> decodePEM_1 L data = Inr (None, Some DataBlockNotFound)"
  by (cases "pem_Decode L data") (simp add: decodePEM_1_def)

lemma decodePEM_1_one_block:
  "pem_Decode L data = (Some b0, r0) \<Longrightarrow> fst (pem_Decode L r0) = None \<Longrightarrow>
   decodePEM_1 L data = Inr (None, Some DataBlockNotFound)"
  by (cases "pem_Decode L r0") (simp add: decodePEM_1_def)

lemma decodePEM_1_rest:
  "pem_Decode L data = (Some b0, r0) \<Longrightarrow> pem_Decode L r0 = (Some b1, r1) \<Longrightarrow> r1 \<noteq> [] \<Longrightarrow>
   decodePEM_1 L data = Inr (None, Some Only2BlocksAllowed)"
  by (simp add: decodePEM_1_def)

lemma decodePEM_1_first_error:
  assumes "pem_Decode L data = (Some b0, r0)" and "pem_Decode L r0 = (Some b1, [])"
    and "decodePEM_blocks L [b0, b1] (None, None) = Inr (Inl err)"
  shows "decodePEM_1 L data = Inr (None, Some err)"
  using assms by (simp add: decodePEM_1_two)

lemma decodePEM_1_second:
  assumes d: "pem_Decode L data = (Some b0, r0)" "pem_Decode L r0 = (Some b1, [])"
    and a: "block_accepted L b0"
  shows "Type b1 \<noteq> ''EC PRIVATE KEY'' \<and> Type b1 \<noteq> ''PUBLIC KEY'' \<longrightarrow>
           decodePEM_1 L data = Inr (None, Some (UnexpectedBlockType (Type b1)))"
    and "Type b1 = ''EC PRIVATE KEY'' \<and> ParseECPrivateKey L (Bytes b1) = Inl m \<longrightarrow>
           decodePEM_1 L data = Inr (None, Some (BlockParseError (LibraryError m)))"
    and "Type b1 = ''PUBLIC KEY'' \<and> ParsePKIXPublicKey L (Bytes b1) = Inl m \<longrightarrow>
           decodePEM_1 L data =
             Inr (None, Some (BlockParseError (ParsePublicKeyError (LibraryError m))))"
    and "block_accepted L b1 \<and> Type b0 = Type b1 \<longrightarrow>
           decodePEM_1 L data = Inr (None, Some KeysNotIncluded)"
proof -
  obtain st where st: "decodePEM_blocks L [b0, b1] (None, None) = decodePEM_blocks L [b1] st"
    using block_accepted_step [OF a] by metis
  show "Type b1 \<noteq> ''EC PRIVATE KEY'' \<and> Type b1 \<noteq> ''PUBLIC KEY'' \<longrightarrow>
           decodePEM_1 L data = Inr (None, Some (UnexpectedBlockType (Type b1)))"
    using decodePEM_1_first_error [OF d] st blocks_type [of b1 L "[]" st] by simp
  show "Type b1 = ''EC PRIVATE KEY'' \<and> ParseECPrivateKey L (Bytes b1) = Inl m \<longrightarrow>
           decodePEM_1 L data = Inr (None, Some (BlockParseError (LibraryError m)))"
    using decodePEM_1_first_error [OF d] st blocks_private_fail [of b1 L m "[]" st] by simp
  show "Type b1 = ''PUBLIC KEY'' \<and> ParsePKIXPublicKey L (Bytes b1) = Inl m \<longrightarrow>
           decodePEM_1 L data =
             Inr (None, Some (BlockParseError (ParsePublicKeyError (LibraryError m))))"
    using decodePEM_1_first_error [OF d] st blocks_public_fail [of b1 L m "[]" st] by simp
  show "block_accepted L b1 \<and> Type b0 = Type b1 \<longrightarrow>
           decodePEM_1 L data = Inr (None, Some KeysNotIncluded)"
    using a d
    by (auto simp: decodePEM_1_def block_accepted_def parseECDSAPublicKey_1_def
        split: if_splits sum.splits x509_PublicKey.splits)
qed

text \<open>
  C6 (amended). The two-block loader of the first listing returns either a key or an
  error, never both and never neither. It returns a key exactly when the input is two
  blocks with nothing after them, one of type \<^verbatim>\<open>EC PRIVATE KEY\<close> and one of type
  \<^verbatim>\<open>PUBLIC KEY\<close> in either order, both of which parse; the key returned is the parsed
  private key with the parsed public key stored in it (the two are not compared). It
  returns an error and no key when there are fewer than two blocks, when anything
  follows the second block, when a block has another type label, when a block fails to
  parse, and when both blocks have the same type. The one-block loader of the second
  listing returns a key exactly when the input is a single block of type
  \<^verbatim>\<open>EC PRIVATE KEY\<close> that parses, with nothing after it, and the key is the parser's; a
  second block counts as trailing data and is refused.
\<close>

theorem key_loading:
  "(\<forall>k e. decodePEM_1 L data = Inr (k, e) \<longrightarrow> (k = None) \<noteq> (e = None))
   \<and> (\<forall>k. decodePEM_1 L data = Inr (Some k, None) \<longleftrightarrow>
        (\<exists>b0 r0 b1 priv pub.
           pem_Decode L data = (Some b0, r0) \<and> pem_Decode L r0 = (Some b1, [])
           \<and> k = priv\<lparr>PublicKey := pub\<rparr>
           \<and> (Type b0 = ''EC PRIVATE KEY'' \<and> ParseECPrivateKey L (Bytes b0) = Inr priv
                \<and> Type b1 = ''PUBLIC KEY''
                \<and> ParsePKIXPublicKey L (Bytes b1) = Inr (ECDSA_Key pub)
              \<or> Type b0 = ''PUBLIC KEY''
                \<and> ParsePKIXPublicKey L (Bytes b0) = Inr (ECDSA_Key pub)
                \<and> Type b1 = ''EC PRIVATE KEY''
                \<and> ParseECPrivateKey L (Bytes b1) = Inr priv)))
   \<and> (fst (pem_Decode L data) = None \<longrightarrow>
        decodePEM_1 L data = Inr (None, Some DataBlockNotFound))
   \<and> (\<forall>b0 r0. pem_Decode L data = (Some b0, r0) \<and> fst (pem_Decode L r0) = None \<longrightarrow>
        decodePEM_1 L data = Inr (None, Some DataBlockNotFound))
   \<and> (\<forall>b0 r0 b1 r1. pem_Decode L data = (Some b0, r0) \<and> pem_Decode L r0 = (Some b1, r1)
          \<and> r1 \<noteq> [] \<longrightarrow>
        decodePEM_1 L data = Inr (None, Some Only2BlocksAllowed))
   \<and> (\<forall>b0 r0 b1 m. pem_Decode L data = (Some b0, r0) \<and> pem_Decode L r0 = (Some b1, []) \<longrightarrow>
        (Type b0 \<noteq> ''EC PRIVATE KEY'' \<and> Type b0 \<noteq> ''PUBLIC KEY'' \<longrightarrow>
           decodePEM_1 L data = Inr (None, Some (UnexpectedBlockType (Type b0))))
        \<and> (Type b0 = ''EC PRIVATE KEY'' \<and> ParseECPrivateKey L (Bytes b0) = Inl m \<longrightarrow>
           decodePEM_1 L data = Inr (None, Some (BlockParseError (LibraryError m))))
        \<and> (Type b0 = ''PUBLIC KEY'' \<and> ParsePKIXPublicKey L (Bytes b0) = Inl m \<longrightarrow>
           decodePEM_1 L data =
             Inr (None, Some (BlockParseError (ParsePublicKeyError (LibraryError m)))))
        \<and> (block_accepted L b0 \<longrightarrow>
             (Type b1 \<noteq> ''EC PRIVATE KEY'' \<and> Type b1 \<noteq> ''PUBLIC KEY'' \<longrightarrow>
                decodePEM_1 L data = Inr (None, Some (UnexpectedBlockType (Type b1))))
             \<and> (Type b1 = ''EC PRIVATE KEY'' \<and> ParseECPrivateKey L (Bytes b1) = Inl m \<longrightarrow>
                decodePEM_1 L data = Inr (None, Some (BlockParseError (LibraryError m))))
             \<and> (Type b1 = ''PUBLIC KEY'' \<and> ParsePKIXPublicKey L (Bytes b1) = Inl m \<longrightarrow>
                decodePEM_1 L data =
                  Inr (None, Some (BlockParseError (ParsePublicKeyError (LibraryError m)))))
             \<and> (block_accepted L b1 \<and> Type b0 = Type b1 \<longrightarrow>
                decodePEM_1 L data = Inr (None, Some KeysNotIncluded))))
   \<and> (\<forall>k e. decodePEM L data = (k, e) \<longrightarrow> (k = None) \<noteq> (e = None))
   \<and> (\<forall>k. decodePEM L data = (Some k, None) \<longleftrightarrow>
        (\<exists>b. pem_Decode L data = (Some b, []) \<and> Type b = ''EC PRIVATE KEY''
              \<and> ParseECPrivateKey L (Bytes b) = Inr k))
   \<and> (fst (pem_Decode L data) = None \<longrightarrow> decodePEM L data = (None, Some DataBlockNotFound))
   \<and> (\<forall>b r. pem_Decode L data = (Some b, r) \<and> r \<noteq> [] \<longrightarrow>
        decodePEM L data = (None, Some Only2BlocksAllowed))
   \<and> (\<forall>b m. pem_Decode L data = (Some b, []) \<longrightarrow>
        (Type b \<noteq> ''EC PRIVATE KEY'' \<longrightarrow>
           decodePEM L data = (None, Some (UnexpectedBlockType (Type b))))
        \<and> (Type b = ''EC PRIVATE KEY'' \<and> ParseECPrivateKey L (Bytes b) = Inl m \<longrightarrow>
           decodePEM L data = (None, Some (BlockParseError (LibraryError m)))))"
proof (intro conjI allI impI)
  fix k e assume "decodePEM_1 L data = Inr (k, e)"
  then show "(k = None) \<noteq> (e = None)" by (rule decodePEM_1_exclusive)
next
  fix k show "decodePEM_1 L data = Inr (Some k, None) \<longleftrightarrow>
        (\<exists>b0 r0 b1 priv pub.
           pem_Decode L data = (Some b0, r0) \<and> pem_Decode L r0 = (Some b1, [])
           \<and> k = priv\<lparr>PublicKey := pub\<rparr>
           \<and> (Type b0 = ''EC PRIVATE KEY'' \<and> ParseECPrivateKey L (Bytes b0) = Inr priv
                \<and> Type b1 = ''PUBLIC KEY''
                \<and> ParsePKIXPublicKey L (Bytes b1) = Inr (ECDSA_Key pub)
              \<or> Type b0 = ''PUBLIC KEY''
                \<and> ParsePKIXPublicKey L (Bytes b0) = Inr (ECDSA_Key pub)
                \<and> Type b1 = ''EC PRIVATE KEY''
                \<and> ParseECPrivateKey L (Bytes b1) = Inr priv))"
    by (rule decodePEM_1_Some_iff)
next
  assume "fst (pem_Decode L data) = None"
  then show "decodePEM_1 L data = Inr (None, Some DataBlockNotFound)"
    by (rule decodePEM_1_no_block)
next
  fix b0 r0 assume "pem_Decode L data = (Some b0, r0) \<and> fst (pem_Decode L r0) = None"
  then show "decodePEM_1 L data = Inr (None, Some DataBlockNotFound)"
    using decodePEM_1_one_block by blast
next
  fix b0 r0 b1 r1
  assume "pem_Decode L data = (Some b0, r0) \<and> pem_Decode L r0 = (Some b1, r1) \<and> r1 \<noteq> []"
  then show "decodePEM_1 L data = Inr (None, Some Only2BlocksAllowed)"
    using decodePEM_1_rest by blast
next
  fix b0 r0 b1 and m :: string
  assume d: "pem_Decode L data = (Some b0, r0) \<and> pem_Decode L r0 = (Some b1, [])"
  {
    assume "Type b0 \<noteq> ''EC PRIVATE KEY'' \<and> Type b0 \<noteq> ''PUBLIC KEY''"
    then show "decodePEM_1 L data = Inr (None, Some (UnexpectedBlockType (Type b0)))"
      using d decodePEM_1_first_error blocks_type by blast
  next
    assume "Type b0 = ''EC PRIVATE KEY'' \<and> ParseECPrivateKey L (Bytes b0) = Inl m"
    then show "decodePEM_1 L data = Inr (None, Some (BlockParseError (LibraryError m)))"
      using d decodePEM_1_first_error blocks_private_fail by blast
  next
    assume "Type b0 = ''PUBLIC KEY'' \<and> ParsePKIXPublicKey L (Bytes b0) = Inl m"
    then show "decodePEM_1 L data =
        Inr (None, Some (BlockParseError (ParsePublicKeyError (LibraryError m))))"
      using d decodePEM_1_first_error blocks_public_fail by blast
  next
    assume a: "block_accepted L b0"
    {
      assume "Type b1 \<noteq> ''EC PRIVATE KEY'' \<and> Type b1 \<noteq> ''PUBLIC KEY''"
      then show "decodePEM_1 L data = Inr (None, Some (UnexpectedBlockType (Type b1)))"
        using decodePEM_1_second(1) d a by blast
    next
      assume "Type b1 = ''EC PRIVATE KEY'' \<and> ParseECPrivateKey L (Bytes b1) = Inl m"
      then show "decodePEM_1 L data = Inr (None, Some (BlockParseError (LibraryError m)))"
        using decodePEM_1_second(2) d a by blast
    next
      assume "Type b1 = ''PUBLIC KEY'' \<and> ParsePKIXPublicKey L (Bytes b1) = Inl m"
      then show "decodePEM_1 L data =
          Inr (None, Some (BlockParseError (ParsePublicKeyError (LibraryError m))))"
        using decodePEM_1_second(3) d a by blast
    next
      assume "block_accepted L b1 \<and> Type b0 = Type b1"
      then show "decodePEM_1 L data = Inr (None, Some KeysNotIncluded)"
        using decodePEM_1_second(4) d a by blast
    }
  }
next
  fix k e assume "decodePEM L data = (k, e)"
  then show "(k = None) \<noteq> (e = None)" by (rule decodePEM_exclusive)
next
  fix k show "decodePEM L data = (Some k, None) \<longleftrightarrow>
        (\<exists>b. pem_Decode L data = (Some b, []) \<and> Type b = ''EC PRIVATE KEY''
              \<and> ParseECPrivateKey L (Bytes b) = Inr k)"
    using decodePEM_Some_iff [of L data k None] by simp
next
  assume "fst (pem_Decode L data) = None"
  then show "decodePEM L data = (None, Some DataBlockNotFound)" by (rule decodePEM_no_block)
next
  fix b r assume "pem_Decode L data = (Some b, r) \<and> r \<noteq> []"
  then show "decodePEM L data = (None, Some Only2BlocksAllowed)"
    using decodePEM_rest by blast
next
  fix b and m :: string assume d: "pem_Decode L data = (Some b, [])"
  {
    assume "Type b \<noteq> ''EC PRIVATE KEY''"
    then show "decodePEM L data = (None, Some (UnexpectedBlockType (Type b)))"
      using d decodePEM_type by blast
  next
    assume "Type b = ''EC PRIVATE KEY'' \<and> ParseECPrivateKey L (Bytes b) = Inl m"
    then show "decodePEM L data = (None, Some (BlockParseError (LibraryError m)))"
      using d decodePEM_parse by blast
  }
qed


lemma demo_pem_Decode_simps:
  "pem_Decode demo_library (CHR ''K'' # b # rest) =
     (Some \<lparr>Type = ''EC PRIVATE KEY'', Bytes = [of_nat (of_char b)]\<rparr>, rest)"
  "pem_Decode demo_library (CHR ''P'' # b # rest) =
     (Some \<lparr>Type = ''PUBLIC KEY'', Bytes = [of_nat (of_char b)]\<rparr>, rest)"
  "pem_Decode demo_library (CHR ''C'' # b # rest) =
     (Some \<lparr>Type = ''CERTIFICATE'', Bytes = [of_nat (of_char b)]\<rparr>, rest)"
  "pem_Decode demo_library [] = (None, [])"
  by (simp_all add: demo_library_def)

lemma demo_parse_simps:
  "ParseECPrivateKey demo_library = demo_ParseECPrivateKey"
  "ParsePKIXPublicKey demo_library = demo_ParsePKIXPublicKey"
  by (simp_all add: demo_library_def)

theorem key_loading_witness:
  "decodePEM_1 demo_library ''K5'' = Inr (None, Some DataBlockNotFound)
   \<and> decodePEM_1 demo_library ''K5P5C5'' = Inr (None, Some Only2BlocksAllowed)
   \<and> decodePEM_1 demo_library ''K5C5'' = Inr (None, Some (UnexpectedBlockType ''CERTIFICATE''))
   \<and> decodePEM_1 demo_library ''P6K5''
        = Inr (Some ((demo_private 53)\<lparr>PublicKey := demo_public 54\<rparr>), None)
   \<and> decodePEM demo_library ''K5C5'' = (None, Some Only2BlocksAllowed)"
proof -
  have one: "decodePEM_1 demo_library ''K5'' = Inr (None, Some DataBlockNotFound)"
    using key_loading [of demo_library "''K5''", THEN conjunct2, THEN conjunct2, THEN conjunct2,
        THEN conjunct1, rule_format, of _ "[]"]
    by (simp add: demo_pem_Decode_simps)
  have three: "decodePEM_1 demo_library ''K5P5C5'' = Inr (None, Some Only2BlocksAllowed)"
    using key_loading [of demo_library "''K5P5C5''", THEN conjunct2, THEN conjunct2,
        THEN conjunct2, THEN conjunct2, THEN conjunct1, rule_format, of _ "''P5C5''" _ "''C5''"]
    by (simp add: demo_pem_Decode_simps)
  have acc: "block_accepted demo_library \<lparr>Type = ''EC PRIVATE KEY'', Bytes = [53]\<rparr>"
    by (simp add: block_accepted_def demo_parse_simps demo_ParseECPrivateKey_def)
  have label: "decodePEM_1 demo_library ''K5C5'' =
      Inr (None, Some (UnexpectedBlockType ''CERTIFICATE''))"
    using key_loading [of demo_library "''K5C5''", THEN conjunct2, THEN conjunct2,
        THEN conjunct2, THEN conjunct2, THEN conjunct2, THEN conjunct1, rule_format,
        of "\<lparr>Type = ''EC PRIVATE KEY'', Bytes = [53]\<rparr>" "''C5''"
           "\<lparr>Type = ''CERTIFICATE'', Bytes = [53]\<rparr>", THEN conjunct2, THEN conjunct2,
        THEN conjunct2, rule_format, OF _ acc, THEN conjunct1, rule_format]
    by (simp add: demo_pem_Decode_simps)
  have ok: "decodePEM_1 demo_library ''P6K5''
        = Inr (Some ((demo_private 53)\<lparr>PublicKey := demo_public 54\<rparr>), None)"
    by (simp add: decodePEM_1_def demo_pem_Decode_simps demo_parse_simps
        parseECDSAPublicKey_1_def demo_ParsePKIXPublicKey_def demo_ParseECPrivateKey_def)
  have single: "decodePEM demo_library ''K5C5'' = (None, Some Only2BlocksAllowed)"
    using key_loading [of demo_library "''K5C5''", THEN conjunct2, THEN conjunct2,
        THEN conjunct2, THEN conjunct2, THEN conjunct2, THEN conjunct2, THEN conjunct2,
        THEN conjunct2, THEN conjunct2, THEN conjunct1, rule_format, of _ "''C5''"]
    by (simp add: demo_pem_Decode_simps)
  from one three label ok single show ?thesis by simp
qed

text \<open>
  The claim as stated fails on the second listing: a private key block followed by its
  public key block is refused there, and a single private key block is accepted.
\<close>

theorem key_loading_counterexample:
  "decodePEM demo_library ''K5P5'' = (None, Some Only2BlocksAllowed)
   \<and> decodePEM demo_library ''K5'' = (Some (demo_private 53), None)
   \<and> decodePEM_1 demo_library ''K5P5'' = Inr (Some (demo_private 53), None)"
  by (simp add: decodePEM_def decodePEM_1_def demo_pem_Decode_simps demo_parse_simps
      parseECDSAPublicKey_1_def demo_ParsePKIXPublicKey_def demo_ParseECPrivateKey_def
      demo_private_def)


end
